theory Spec2Isabelle
  imports Complex_Main "HOL-Library.AList"
begin

section \<open>The trainer of \<open>doc_ml_env/trainer.py\<close>\<close>

text \<open>
  The class \<open>Trainer\<close> drives a model and an optimizer that it receives from its caller.
  Their internals are not part of the repository, so the embedding keeps one opaque value
  \<open>'w\<close> for everything they hold and a record of functions, one per method that the
  trainer reaches on them. Python floats are modelled as exact reals.

  Every call on a collaborator, every file access and every \<open>print\<close> is logged in the
  field \<open>trace\<close> of the state, in program order. The code itself never reads the trace.

  Python looks a name used in a function body up among the function's parameters and local
  variables, then among the names of the module, then among the built-ins, and raises
  \<open>NameError\<close> when it is in none of them; the attributes of a class are not in scope
  in the bodies of its methods. The module binds, in lines 1 to 11, the names \<open>torch\<close>,
  \<open>nn\<close>, \<open>optim\<close>, \<open>autocast\<close>, \<open>GradScaler\<close>, \<open>accuracy_score\<close>,
  \<open>tqdm\<close>, \<open>np\<close>, \<open>glob\<close> and \<open>Trainer\<close>, and nothing else.
\<close>

subsection \<open>Exceptions\<close>

datatype pyerror =
    FileNotFoundError
  | UnpicklingError
  | KeyError string
  | IndexError
  | NameError string

subsection \<open>Checkpoint files\<close>

text \<open>
  The dictionary that \<open>fit\<close> hands to \<open>torch.save\<close> has six keys. A file found
  on disk may lack any of them (\<open>None\<close>: indexing the dictionary with that key raises
  \<open>KeyError\<close>), or may not be loadable at all.
\<close>

record 'd checkpoint =
  model_state_dict :: "'d option"
  optimizer_state_dict :: "'d option"
  epoch :: "int list option"
  train_loss :: "real list option"
  dev_loss :: "real list option"
  dev_acc :: "real list option"

datatype 'd stored = NotLoadable | Pickled "'d checkpoint"

type_synonym 'd disk = "(string \<times> 'd stored) list"

definition torch_load :: "string \<Rightarrow> 'd disk \<Rightarrow> pyerror + 'd checkpoint" where
  "torch_load path fs =
     (case map_of fs path of
        None \<Rightarrow> Inl FileNotFoundError
      | Some NotLoadable \<Rightarrow> Inl UnpicklingError
      | Some (Pickled ck) \<Rightarrow> Inr ck)"

subsection \<open>Logged events\<close>

datatype message =
    UsingPretrained int int real
  | FromScratch

datatype event =
    ModelTrain
  | TorchLoad string
  | LoadModelState
  | LoadOptimizerState
  | TorchSave string
  | Print message

subsection \<open>Collaborators and the trainer's state\<close>

text \<open>
  \<open>c_train\<close> is \<open>self.model.train()\<close>; the other four are \<open>state_dict()\<close> and
  \<open>load_state_dict\<close> of the model and of the optimizer.
\<close>

record ('w, 'd) collab =
  c_train :: "'w \<Rightarrow> 'w"
  c_model_state :: "'w \<Rightarrow> 'd"
  c_optimizer_state :: "'w \<Rightarrow> 'd"
  c_model_load :: "'d \<Rightarrow> 'w \<Rightarrow> 'w"
  c_optimizer_load :: "'d \<Rightarrow> 'w \<Rightarrow> 'w"

text \<open>
  The fields \<open>batch_size\<close> to \<open>dev_dataloader\<close> are the attributes of \<open>self\<close>
  set by \<open>__init__\<close>; \<open>live\<close> is the state of the collaborators; \<open>disk\<close> is the
  file system, in directory order.
\<close>

record ('w, 'd, 'b) state =
  batch_size :: int
  model_path :: string
  train_dataloader :: "'b list"
  dev_dataloader :: "'b list"
  live :: 'w
  disk :: "'d disk"
  trace :: "event list"

definition emit :: "event \<Rightarrow> ('w, 'd, 'b) state \<Rightarrow> ('w, 'd, 'b) state" where
  "emit e s = s\<lparr>trace := trace s @ [e]\<rparr>"

definition act :: "event \<Rightarrow> ('w \<Rightarrow> 'w) \<Rightarrow> ('w, 'd, 'b) state \<Rightarrow> ('w, 'd, 'b) state" where
  "act e f s = s\<lparr>live := f (live s), trace := trace s @ [e]\<rparr>"

subsection \<open>\<open>train_model\<close> and \<open>dev_model\<close>\<close>

text \<open>
  Both are declared in the class body with no parameter (lines 45 and 70) and are
  generators. The first statement of either is a \<open>for\<close> over
  \<open>tqdm(self.train_dataloader, ...)\<close> (line 48), respectively
  \<open>enumerate(tqdm(self.dev_dataloader, ...))\<close> (line 75): \<open>self\<close> is neither a
  parameter, nor a local, nor a name of the module, so running the generator raises
  \<open>NameError\<close> before any batch is taken and before any collaborator is called. The
  definitions give the outcome of running the generator to its end, and the state reached.
\<close>

definition train_model ::
  "('w, 'd, 'b) state \<Rightarrow> (pyerror + real list) \<times> ('w, 'd, 'b) state"
where
  "train_model s = (Inl (NameError ''self''), s)"

definition dev_model ::
  "('w, 'd, 'b) state \<Rightarrow> (pyerror + (real \<times> real) list) \<times> ('w, 'd, 'b) state"
where
  "dev_model s = (Inl (NameError ''self''), s)"

subsection \<open>Checkpoint paths\<close>

text \<open>
  \<open>str_int\<close> is the decimal text an f-string gives for an integer; \<open>fit\<close> builds
  the path by plain concatenation with \<open>model_path\<close>.
\<close>

definition digit_char :: "nat \<Rightarrow> char" where
  "digit_char d = ''0123456789'' ! d"

function str_nat :: "nat \<Rightarrow> string" where
  "str_nat n = (if n < 10 then [digit_char n] else str_nat (n div 10) @ [digit_char (n mod 10)])"
  by pat_completeness auto
termination
  by (relation "measure id") auto

declare str_nat.simps [simp del]

definition str_int :: "int \<Rightarrow> string" where
  "str_int i = (if i < 0 then CHR ''-'' # str_nat (nat (- i)) else str_nat (nat i))"

definition checkpoint_file :: "string \<Rightarrow> int \<Rightarrow> string" where
  "checkpoint_file dir n = dir @ ''checkpoint_'' @ str_int n @ ''.pth''"

definition torch_save ::
  "'d checkpoint \<Rightarrow> string \<Rightarrow> ('w, 'd, 'b) state \<Rightarrow> ('w, 'd, 'b) state"
where
  "torch_save ck path s =
     s\<lparr>disk := AList.update path (Pickled ck) (disk s), trace := trace s @ [TorchSave path]\<rparr>"

subsection \<open>\<open>fit\<close>\<close>

text \<open>
  Lines 115 to 128: the resume branch. The result is the outcome (an exception or
  \<open>start_epoch\<close>) together with the state reached, since the model and the optimizer may
  already have been restored when a later lookup raises. The key \<open>dev_loss\<close> is not read
  here.
\<close>

definition load_pretrained ::
  "('w, 'd) collab \<Rightarrow> int \<Rightarrow> ('w, 'd, 'b) state \<Rightarrow> (pyerror + int) \<times> ('w, 'd, 'b) state"
where
  "load_pretrained c pretrain s =
     (if pretrain \<noteq> 0 then
        (let path = checkpoint_file (model_path s) pretrain;
             s0 = emit (TorchLoad path) s
         in case torch_load path (disk s) of
              Inl e \<Rightarrow> (Inl e, s0)
            | Inr ck \<Rightarrow>
                (case model_state_dict ck of
                   None \<Rightarrow> (Inl (KeyError ''model_state_dict''), s0)
                 | Some m \<Rightarrow>
                     (let s1 = act LoadModelState (c_model_load c m) s0
                      in case optimizer_state_dict ck of
                           None \<Rightarrow> (Inl (KeyError ''optimizer_state_dict''), s1)
                         | Some ob \<Rightarrow>
                             (let s2 = act LoadOptimizerState (c_optimizer_load c ob) s1
                              in case epoch ck of
                                   None \<Rightarrow> (Inl (KeyError ''epoch''), s2)
                                 | Some es \<Rightarrow>
                                     if es = [] then (Inl IndexError, s2)
                                     else
                                       (case train_loss ck of
                                          None \<Rightarrow> (Inl (KeyError ''train_loss''), s2)
                                        | Some tls \<Rightarrow>
                                            if tls = [] then (Inl IndexError, s2)
                                            else
                                              (case dev_acc ck of
                                                 None \<Rightarrow> (Inl (KeyError ''dev_acc''), s2)
                                               | Some accs \<Rightarrow>
                                                   if accs = [] then (Inl IndexError, s2)
                                                   else
                                                     (Inr (last es),
                                                      emit (Print (UsingPretrained pretrain (last es) (last tls))) s2)))))))
      else (Inr 0, emit (Print FromScratch) s))"

type_synonym history = "int list \<times> real list \<times> real list \<times> real list"

text \<open>
  Lines 136 to 165: the body of the epoch loop. After \<open>train_loss = 0.0\<close> and
  \<open>self.model.train()\<close>, the \<open>for\<close> statement of line 142 evaluates the bare name
  \<open>train_model\<close>. It is not a parameter or a local of \<open>fit\<close> and not a name of the
  module (the generator of that name is an attribute of the class), so the statement raises
  \<open>NameError\<close>. Nothing after it in the body is reached: not the validation pass (whose
  \<open>dev_model\<close> of line 151 is unbound in the same way), not \<open>scheduler.step\<close> of
  line 156 (\<open>scheduler\<close> is unbound as well), not the scaling of the losses and not the
  four \<open>append\<close>s.
\<close>

definition run_epoch ::
  "('w, 'd) collab \<Rightarrow> int \<Rightarrow> nat \<Rightarrow> history \<Rightarrow> ('w, 'd, 'b) state
    \<Rightarrow> (pyerror + history) \<times> ('w, 'd, 'b) state"
where
  "run_epoch c start_epoch ep h s =
     (let s1 = act ModelTrain (c_train c) s
      in (Inl (NameError ''train_model''), s1))"

fun epoch_loop ::
  "('w, 'd) collab \<Rightarrow> int \<Rightarrow> nat list \<Rightarrow> history \<Rightarrow> ('w, 'd, 'b) state
    \<Rightarrow> (pyerror + history) \<times> ('w, 'd, 'b) state"
where
  "epoch_loop c start_epoch [] h s = (Inr h, s)"
| "epoch_loop c start_epoch (ep # eps) h s =
     (case run_epoch c start_epoch ep h s of
        (Inl e, s') \<Rightarrow> (Inl e, s')
      | (Inr h', s') \<Rightarrow> epoch_loop c start_epoch eps h' s')"

text \<open>
  \<open>range(epoch_num)\<close> is \<open>[0..<nat epoch_num]\<close>: empty for \<open>epoch_num \<le> 0\<close>.
  The stored epoch list is computed from \<open>pretrain\<close>, not from \<open>epoch_list\<close>.
\<close>

definition fit ::
  "('w, 'd) collab \<Rightarrow> int \<Rightarrow> int \<Rightarrow> ('w, 'd, 'b) state
    \<Rightarrow> pyerror option \<times> ('w, 'd, 'b) state"
where
  "fit c epoch_num pretrain s =
     (case load_pretrained c pretrain s of
        (Inl e, s0) \<Rightarrow> (Some e, s0)
      | (Inr start_epoch, s0) \<Rightarrow>
          (case epoch_loop c start_epoch [0..<nat epoch_num] ([], [], [], []) s0 of
             (Inl e, s1) \<Rightarrow> (Some e, s1)
           | (Inr (epoch_list, train_loss_list, dev_loss_list, dev_acc_list), s1) \<Rightarrow>
               (let ck = \<lparr>model_state_dict = Some (c_model_state c (live s1)),
                          optimizer_state_dict = Some (c_optimizer_state c (live s1)),
                          epoch = Some [pretrain + 1..pretrain + epoch_num],
                          train_loss = Some train_loss_list,
                          dev_loss = Some dev_loss_list,
                          dev_acc = Some dev_acc_list\<rparr>
                in (None, torch_save ck (checkpoint_file (model_path s1) (pretrain + epoch_num)) s1))))"

subsection \<open>\<open>plot_loss_acc\<close>\<close>

text \<open>
  Line 190 assigns the argument to \<open>self.model_path\<close>. Line 193 then evaluates
  \<open>os.path.join\<close>: the module does not import \<open>os\<close> (nor \<open>plt\<close>, used from line
  232 on), so it raises \<open>NameError\<close>. The directory is not listed and no file is read.
\<close>

definition plot_loss_acc ::
  "string \<Rightarrow> ('w, 'd, 'b) state \<Rightarrow> pyerror option \<times> ('w, 'd, 'b) state"
where
  "plot_loss_acc path s =
     (let s1 = s\<lparr>model_path := path\<rparr>
      in (Some (NameError ''os''), s1))"

section \<open>Vocabulary of the properties\<close>

text \<open>
  \<open>resume_error\<close> tabulates, for what is stored under the path to resume from, the
  exception the resume branch is expected to raise (\<open>None\<close>: it loads). A call can start
  when no resume is asked for or the checkpoint loads.
\<close>

fun resume_error :: "'d stored option \<Rightarrow> pyerror option" where
  "resume_error None = Some FileNotFoundError"
| "resume_error (Some NotLoadable) = Some UnpicklingError"
| "resume_error (Some (Pickled ck)) =
     (if model_state_dict ck = None then Some (KeyError ''model_state_dict'')
      else if optimizer_state_dict ck = None then Some (KeyError ''optimizer_state_dict'')
      else if epoch ck = None then Some (KeyError ''epoch'')
      else if epoch ck = Some [] then Some IndexError
      else if train_loss ck = None then Some (KeyError ''train_loss'')
      else if train_loss ck = Some [] then Some IndexError
      else if dev_acc ck = None then Some (KeyError ''dev_acc'')
      else if dev_acc ck = Some [] then Some IndexError
      else None)"

definition can_start :: "('w, 'd, 'b) state \<Rightarrow> int \<Rightarrow> bool" where
  "can_start s pretrain \<longleftrightarrow>
     pretrain = 0 \<or> resume_error (map_of (disk s) (checkpoint_file (model_path s) pretrain)) = None"

text \<open>
  The events of the resume branch; \<open>new_events s s'\<close> is what a call that took \<open>s\<close> to
  \<open>s'\<close> added to the trace.
\<close>

fun is_load_event :: "event \<Rightarrow> bool" where
  "is_load_event (TorchLoad p) = True"
| "is_load_event LoadModelState = True"
| "is_load_event LoadOptimizerState = True"
| "is_load_event (Print m) = True"
| "is_load_event e = False"

fun is_save :: "event \<Rightarrow> bool" where
  "is_save (TorchSave p) = True"
| "is_save e = False"

definition new_events :: "('w, 'd, 'b) state \<Rightarrow> ('w, 'd, 'b) state \<Rightarrow> event list" where
  "new_events s s' = drop (length (trace s)) (trace s')"

subsection \<open>A concrete trainer\<close>

text \<open>
  Collaborators for running the model on concrete inputs: the live state is a number,
  \<open>model.train()\<close> adds one to it, loading a model state replaces it. A batch is written
  as the loss the model would have on it.
\<close>

definition example_collab :: "(nat, nat) collab" where
  "example_collab =
     \<lparr>c_train = Suc,
      c_model_state = (\<lambda>w. w),
      c_optimizer_state = (\<lambda>w. w),
      c_model_load = (\<lambda>d w. d),
      c_optimizer_load = (\<lambda>d w. w)\<rparr>"

definition example_state :: "(nat, nat, real) state" where
  "example_state =
     \<lparr>batch_size = 512, model_path = ''ckpt/'', train_dataloader = [1, 3],
      dev_dataloader = [2, 4], live = 0, disk = [], trace = []\<rparr>"

definition example_checkpoint :: "nat checkpoint" where
  "example_checkpoint =
     \<lparr>model_state_dict = Some 7, optimizer_state_dict = Some 7, epoch = Some [1, 2, 3],
      train_loss = Some [3, 2, 1], dev_loss = Some [3, 2, 2], dev_acc = Some [1 / 2, 3 / 4, 3 / 4]\<rparr>"

definition resumed_state :: "(nat, nat, real) state" where
  "resumed_state = example_state\<lparr>disk := [(''ckpt/checkpoint_3.pth'', Pickled example_checkpoint)]\<rparr>"

definition no_dev_loss_state :: "(nat, nat, real) state" where
  "no_dev_loss_state =
     example_state\<lparr>disk := [(''ckpt/checkpoint_3.pth'', Pickled (example_checkpoint\<lparr>dev_loss := None\<rparr>))]\<rparr>"

definition three_files_state :: "(nat, nat, real) state" where
  "three_files_state =
     example_state\<lparr>disk :=
       [(''ckpt/checkpoint_1.pth'',
           Pickled \<lparr>model_state_dict = Some 1, optimizer_state_dict = Some 1, epoch = Some [1],
                    train_loss = Some [3], dev_loss = Some [3], dev_acc = Some [1 / 2]\<rparr>),
        (''ckpt/checkpoint_2.pth'', NotLoadable),
        (''ckpt/checkpoint_3.pth'',
           Pickled \<lparr>model_state_dict = Some 3, optimizer_state_dict = Some 3, epoch = Some [2, 3],
                    train_loss = Some [2, 1], dev_loss = Some [2, 2], dev_acc = Some [3 / 4, 3 / 4]\<rparr>)]\<rparr>"

section \<open>Properties\<close>

subsection \<open>The resume branch\<close>

lemma str_int_digit: "0 \<le> i \<Longrightarrow> i < 10 \<Longrightarrow> str_int i = [digit_char (nat i)]"
  by (simp add: str_int_def str_nat.simps)

lemma checkpoint_file_3: "checkpoint_file ''ckpt/'' 3 = ''ckpt/checkpoint_3.pth''"
  by (simp add: checkpoint_file_def str_int_digit digit_char_def)

lemma checkpoint_file_0: "checkpoint_file dir 0 = dir @ ''checkpoint_0.pth''"
  by (simp add: checkpoint_file_def str_int_digit digit_char_def)

lemma load_pretrained_fresh:
  "load_pretrained c 0 s = (Inr 0, emit (Print FromScratch) s)"
  by (simp add: load_pretrained_def)

lemma load_pretrained_absent:
  assumes "pretrain \<noteq> 0"
    and "map_of (disk s) (checkpoint_file (model_path s) pretrain) = None"
  shows "load_pretrained c pretrain s =
           (Inl FileNotFoundError, emit (TorchLoad (checkpoint_file (model_path s) pretrain)) s)"
  using assms by (simp add: load_pretrained_def torch_load_def Let_def)

lemma load_pretrained_not_loadable:
  assumes "pretrain \<noteq> 0"
    and "map_of (disk s) (checkpoint_file (model_path s) pretrain) = Some NotLoadable"
  shows "load_pretrained c pretrain s =
           (Inl UnpicklingError, emit (TorchLoad (checkpoint_file (model_path s) pretrain)) s)"
  using assms by (simp add: load_pretrained_def torch_load_def Let_def)

lemma load_pretrained_pickled:
  assumes "pretrain \<noteq> 0"
    and "map_of (disk s) (checkpoint_file (model_path s) pretrain) = Some (Pickled ck)"
  shows "\<exists>r s0 pre. load_pretrained c pretrain s = (r, s0) \<and>
           (case resume_error (Some (Pickled ck)) of
              Some e \<Rightarrow> r = Inl e | None \<Rightarrow> r = Inr (last (the (epoch ck)))) \<and>
           disk s0 = disk s \<and> model_path s0 = model_path s \<and> batch_size s0 = batch_size s \<and>
           train_dataloader s0 = train_dataloader s \<and> dev_dataloader s0 = dev_dataloader s \<and>
           trace s0 = trace s @ pre \<and> list_all is_load_event pre"
  using assms
  by (auto simp add: load_pretrained_def torch_load_def Let_def emit_def act_def
      split: option.split)

lemma load_pretrained_outcome:
  assumes "pretrain \<noteq> 0"
  shows "\<exists>r s0 pre. load_pretrained c pretrain s = (r, s0) \<and>
           (case resume_error (map_of (disk s) (checkpoint_file (model_path s) pretrain)) of
              Some e \<Rightarrow> r = Inl e | None \<Rightarrow> (\<exists>st. r = Inr st)) \<and>
           disk s0 = disk s \<and> model_path s0 = model_path s \<and> batch_size s0 = batch_size s \<and>
           train_dataloader s0 = train_dataloader s \<and> dev_dataloader s0 = dev_dataloader s \<and>
           trace s0 = trace s @ pre \<and> list_all is_load_event pre"
proof (cases "map_of (disk s) (checkpoint_file (model_path s) pretrain)")
  case None
  show ?thesis
    unfolding load_pretrained_absent [OF assms None] None
    by (simp add: emit_def)
next
  case (Some f)
  show ?thesis
  proof (cases f)
    case NotLoadable
    with Some have m: "map_of (disk s) (checkpoint_file (model_path s) pretrain) = Some NotLoadable"
      by simp
    show ?thesis
      unfolding load_pretrained_not_loadable [OF assms m] m
      by (simp add: emit_def)
  next
    case (Pickled ck)
    with Some have m: "map_of (disk s) (checkpoint_file (model_path s) pretrain) = Some (Pickled ck)"
      by simp
    from load_pretrained_pickled [OF assms m, of c] obtain r s0 pre where
      "load_pretrained c pretrain s = (r, s0)"
      "case resume_error (Some (Pickled ck)) of
         Some e \<Rightarrow> r = Inl e | None \<Rightarrow> r = Inr (last (the (epoch ck)))"
      "disk s0 = disk s \<and> model_path s0 = model_path s \<and> batch_size s0 = batch_size s \<and>
       train_dataloader s0 = train_dataloader s \<and> dev_dataloader s0 = dev_dataloader s \<and>
       trace s0 = trace s @ pre \<and> list_all is_load_event pre"
      by blast
    then show ?thesis
      unfolding m by (cases "resume_error (Some (Pickled ck))") auto
  qed
qed

lemma load_pretrained_ok:
  assumes "can_start s pretrain"
  shows "\<exists>st s0 pre. load_pretrained c pretrain s = (Inr st, s0) \<and>
           disk s0 = disk s \<and> model_path s0 = model_path s \<and> batch_size s0 = batch_size s \<and>
           train_dataloader s0 = train_dataloader s \<and> dev_dataloader s0 = dev_dataloader s \<and>
           trace s0 = trace s @ pre \<and> list_all is_load_event pre"
proof (cases "pretrain = 0")
  case True
  then show ?thesis by (simp add: load_pretrained_fresh emit_def)
next
  case False
  then have "resume_error (map_of (disk s) (checkpoint_file (model_path s) pretrain)) = None"
    using assms by (simp add: can_start_def)
  then show ?thesis using load_pretrained_outcome [OF False, of c s] by auto
qed

subsection \<open>The three ways a call to \<open>fit\<close> ends\<close>

lemma fit_resume_fails:
  "load_pretrained c pretrain s = (Inl e, s0) \<Longrightarrow> fit c epoch_num pretrain s = (Some e, s0)"
  by (simp add: fit_def)

lemma fit_no_epoch:
  assumes "load_pretrained c pretrain s = (Inr st, s0)" and "epoch_num \<le> 0"
  shows "fit c epoch_num pretrain s =
           (None, torch_save \<lparr>model_state_dict = Some (c_model_state c (live s0)),
                              optimizer_state_dict = Some (c_optimizer_state c (live s0)),
                              epoch = Some [pretrain + 1..pretrain + epoch_num],
                              train_loss = Some [], dev_loss = Some [], dev_acc = Some []\<rparr>
                   (checkpoint_file (model_path s0) (pretrain + epoch_num)) s0)"
  using assms by (simp add: fit_def)

lemma fit_first_epoch:
  assumes "load_pretrained c pretrain s = (Inr st, s0)" and "1 \<le> epoch_num"
  shows "fit c epoch_num pretrain s =
           (Some (NameError ''train_model''), act ModelTrain (c_train c) s0)"
proof -
  have "0 < nat epoch_num" using assms(2) by simp
  then have "[0..<nat epoch_num] = 0 # [Suc 0..<nat epoch_num]" by (rule upt_conv_Cons)
  then show ?thesis using assms(1) by (simp add: fit_def run_epoch_def)
qed

section \<open>The claims\<close>

lemma load_events_no_save: "list_all is_load_event pre \<Longrightarrow> filter is_save pre = []"
proof (induction pre)
  case Nil
  show ?case by simp
next
  case (Cons e pre)
  then show ?case by (cases e) simp_all
qed

lemma fit_first_epoch_run:
  assumes "1 \<le> epoch_num" and "can_start s pretrain"
  shows "\<exists>s0 pre. fit c epoch_num pretrain s =
             (Some (NameError ''train_model''), act ModelTrain (c_train c) s0) \<and>
           disk s0 = disk s \<and> model_path s0 = model_path s \<and> batch_size s0 = batch_size s \<and>
           train_dataloader s0 = train_dataloader s \<and> dev_dataloader s0 = dev_dataloader s \<and>
           trace s0 = trace s @ pre \<and> list_all is_load_event pre"
proof -
  from load_pretrained_ok [OF assms(2), of c] obtain st s0 pre where
    l: "load_pretrained c pretrain s = (Inr st, s0)" and
    f: "disk s0 = disk s \<and> model_path s0 = model_path s \<and> batch_size s0 = batch_size s \<and>
        train_dataloader s0 = train_dataloader s \<and> dev_dataloader s0 = dev_dataloader s \<and>
        trace s0 = trace s @ pre \<and> list_all is_load_event pre"
    by blast
  from fit_first_epoch [OF l assms(1)] f show ?thesis by blast
qed

text \<open>
  Claim C1 (the code departs from it). For every \<open>epoch_num \<ge> 1\<close>, a call to \<open>fit\<close> that
  gets past the resume branch raises \<open>NameError\<close> for \<open>train_model\<close> in its first epoch:
  the disk is left as it was and \<open>torch.save\<close> is never called, so no checkpoint is
  written.
\<close>

theorem fit_writes_no_checkpoint:
  assumes "1 \<le> epoch_num" and "can_start s pretrain"
  shows "\<exists>s'. fit c epoch_num pretrain s = (Some (NameError ''train_model''), s') \<and>
           disk s' = disk s \<and> filter is_save (new_events s s') = []"
proof -
  from fit_first_epoch_run [OF assms, of c] obtain s0 pre where
    r: "fit c epoch_num pretrain s = (Some (NameError ''train_model''), act ModelTrain (c_train c) s0)"
    and d: "disk s0 = disk s" and t: "trace s0 = trace s @ pre" and p: "list_all is_load_event pre"
    by blast
  have "disk (act ModelTrain (c_train c) s0) = disk s" using d by (simp add: act_def)
  moreover have "filter is_save (new_events s (act ModelTrain (c_train c) s0)) = []"
    using load_events_no_save [OF p] by (simp add: new_events_def act_def t)
  ultimately show ?thesis using r by blast
qed

theorem fit_writes_no_checkpoint_witness:
  "(1::int) \<le> 1 \<and> can_start example_state 0 \<and>
   (\<exists>s'. fit example_collab 1 0 example_state = (Some (NameError ''train_model''), s') \<and>
      disk s' = disk example_state \<and> filter is_save (new_events example_state s') = [])"
proof -
  have h1: "(1::int) \<le> 1" by simp
  have h2: "can_start example_state 0" by (simp add: can_start_def)
  show ?thesis
    using h2 fit_writes_no_checkpoint [OF h1 h2, of example_collab] by simp
qed

text \<open>
  Claim C2 (the code departs from it). In a call with \<open>epoch_num \<ge> 1\<close> that gets past the
  resume branch, what is logged after the events of that branch is \<open>self.model.train()\<close>
  and nothing else: the call ends there, before the validation pass, so the scheduler is
  not stepped in any epoch.
\<close>

theorem fit_stops_after_model_train:
  assumes "1 \<le> epoch_num" and "can_start s pretrain"
  shows "\<exists>s' pre. fit c epoch_num pretrain s = (Some (NameError ''train_model''), s') \<and>
           new_events s s' = pre @ [ModelTrain] \<and> list_all is_load_event pre"
proof -
  from fit_first_epoch_run [OF assms, of c] obtain s0 pre where
    r: "fit c epoch_num pretrain s = (Some (NameError ''train_model''), act ModelTrain (c_train c) s0)"
    and t: "trace s0 = trace s @ pre" and p: "list_all is_load_event pre"
    by blast
  have "new_events s (act ModelTrain (c_train c) s0) = pre @ [ModelTrain]"
    by (simp add: new_events_def act_def t)
  then show ?thesis using r p by blast
qed

theorem fit_stops_after_model_train_witness:
  "(1::int) \<le> 2 \<and> can_start resumed_state 3 \<and>
   (\<exists>s' pre. fit example_collab 2 3 resumed_state = (Some (NameError ''train_model''), s') \<and>
      new_events resumed_state s' = pre @ [ModelTrain] \<and> list_all is_load_event pre)"
proof -
  have h1: "(1::int) \<le> 2" by simp
  have h2: "can_start resumed_state 3"
    by (simp add: can_start_def resumed_state_def example_state_def checkpoint_file_3
        example_checkpoint_def)
  show ?thesis
    using h2 fit_stops_after_model_train [OF h1 h2, of example_collab] by simp
qed

text \<open>
  Claim C3 (the code departs from it). The scenario of the claim: two training batches with
  losses 1.0 and 3.0 and a batch size of 512. One epoch of \<open>fit\<close> from scratch raises
  \<open>NameError\<close>; no training loss is computed, and nothing is stored: the disk stays
  empty.
\<close>

theorem fit_scenario_reports_no_loss:
  "train_dataloader example_state = [1, 3] \<and> batch_size example_state = 512 \<and>
   fit example_collab 1 0 example_state =
     (Some (NameError ''train_model''),
      example_state\<lparr>live := 1, trace := [Print FromScratch, ModelTrain]\<rparr>) \<and>
   disk (snd (fit example_collab 1 0 example_state)) = []"
proof -
  have l: "load_pretrained example_collab 0 example_state =
             (Inr 0, emit (Print FromScratch) example_state)"
    by (rule load_pretrained_fresh)
  have "fit example_collab 1 0 example_state =
          (Some (NameError ''train_model''),
           act ModelTrain (c_train example_collab) (emit (Print FromScratch) example_state))"
    by (rule fit_first_epoch [OF l]) simp
  then show ?thesis
    by (simp add: act_def emit_def example_state_def example_collab_def)
qed

text \<open>
  Claim C4 (the code departs from it). Running \<open>train_model\<close> raises \<open>NameError\<close> for
  \<open>self\<close> before the first batch: nothing is logged and the state of the collaborators
  is untouched, so for no batch is the loss scaled, propagated, or the optimizer stepped.
\<close>

theorem train_model_runs_no_step:
  "fst (train_model s) = Inl (NameError ''self'') \<and> new_events s (snd (train_model s)) = [] \<and>
   live (snd (train_model s)) = live s"
  by (simp add: train_model_def new_events_def)

text \<open>
  Claim C5 (the code departs from it). In a call of \<open>fit\<close> from scratch with
  \<open>epoch_num \<ge> 1\<close>, the only thing done to the collaborators is \<open>self.model.train()\<close>:
  no gradient is zeroed, no forward pass is run and the optimizer is not stepped, for any
  batch.
\<close>

theorem fit_touches_only_model_train:
  assumes "1 \<le> epoch_num"
  shows "live (snd (fit c epoch_num 0 s)) = c_train c (live s)"
proof -
  have "fit c epoch_num 0 s =
          (Some (NameError ''train_model''), act ModelTrain (c_train c) (emit (Print FromScratch) s))"
    by (rule fit_first_epoch [OF load_pretrained_fresh assms])
  then show ?thesis by (simp add: act_def emit_def)
qed

theorem fit_touches_only_model_train_witness:
  "(1::int) \<le> 3 \<and> live (snd (fit example_collab 3 0 example_state)) =
     c_train example_collab (live example_state)"
proof -
  have h1: "(1::int) \<le> 3" by simp
  show ?thesis
    using fit_touches_only_model_train [OF h1, of example_collab example_state] by simp
qed

text \<open>
  Claim C6, as the code has it. When \<open>fit\<close> is called with a non-zero \<open>pretrain\<close>, the
  resume branch raises \<open>FileNotFoundError\<close> if the checkpoint file is absent,
  \<open>KeyError\<close> if the stored dictionary lacks \<open>model_state_dict\<close>,
  \<open>optimizer_state_dict\<close>, \<open>epoch\<close>, \<open>train_loss\<close> or \<open>dev_acc\<close>, and
  \<open>IndexError\<close> if its \<open>epoch\<close>, \<open>train_loss\<close> or \<open>dev_acc\<close> list is empty
  (\<open>resume_error\<close> is this table; \<open>dev_loss\<close> is not in it). Any such failure ends the
  whole call with that exception: the disk is left as it was, and the only events of the
  call are those of the resume branch, so no epoch is started and nothing is saved.
\<close>

theorem fit_resume_failure_aborts:
  assumes "pretrain \<noteq> 0"
    and "resume_error (map_of (disk s) (checkpoint_file (model_path s) pretrain)) = Some e"
  shows "\<exists>s'. fit c epoch_num pretrain s = (Some e, s') \<and> disk s' = disk s \<and>
           list_all is_load_event (new_events s s')"
proof -
  from load_pretrained_outcome [OF assms(1), of c s] assms(2) obtain s0 pre where
    l: "load_pretrained c pretrain s = (Inl e, s0)" and d: "disk s0 = disk s" and
    t: "trace s0 = trace s @ pre" and p: "list_all is_load_event pre"
    by auto
  have "fit c epoch_num pretrain s = (Some e, s0)" by (rule fit_resume_fails [OF l])
  moreover have "new_events s s0 = pre" by (simp add: new_events_def t)
  ultimately show ?thesis using d p by auto
qed

theorem fit_resume_failure_aborts_witness:
  "(3::int) \<noteq> 0 \<and>
   resume_error (map_of (disk example_state) (checkpoint_file (model_path example_state) 3)) =
     Some FileNotFoundError \<and>
   (\<exists>s'. fit example_collab 2 3 example_state = (Some FileNotFoundError, s') \<and>
      disk s' = disk example_state \<and> list_all is_load_event (new_events example_state s'))"
proof -
  have h1: "(3::int) \<noteq> 0" by simp
  have h2: "resume_error (map_of (disk example_state)
              (checkpoint_file (model_path example_state) 3)) = Some FileNotFoundError"
    by (simp add: example_state_def)
  show ?thesis
    using h2 fit_resume_failure_aborts [OF h1 h2, of example_collab 2] by simp
qed

text \<open>
  Against claim C6 as stated: a stored checkpoint that lacks the field \<open>dev_loss\<close> is
  resumed without any failure, and an absent file raises the loader's own
  \<open>FileNotFoundError\<close>.
\<close>

theorem fit_resumes_without_dev_loss:
  "map_of (disk no_dev_loss_state) (checkpoint_file (model_path no_dev_loss_state) 3) =
     Some (Pickled (example_checkpoint\<lparr>dev_loss := None\<rparr>)) \<and>
   dev_loss (example_checkpoint\<lparr>dev_loss := None\<rparr>) = None \<and>
   fst (fit example_collab 0 3 no_dev_loss_state) = None \<and>
   fst (fit example_collab 0 3 example_state) = Some FileNotFoundError"
proof -
  have m: "map_of (disk no_dev_loss_state) (checkpoint_file (model_path no_dev_loss_state) 3) =
     Some (Pickled (example_checkpoint\<lparr>dev_loss := None\<rparr>))"
    by (simp add: no_dev_loss_state_def example_state_def checkpoint_file_3)
  have c: "can_start no_dev_loss_state 3"
    by (simp add: can_start_def m example_checkpoint_def)
  from load_pretrained_ok [OF c, of example_collab] obtain st s0 where
    l: "load_pretrained example_collab 3 no_dev_loss_state = (Inr st, s0)"
    by blast
  have a: "fst (fit example_collab 0 3 no_dev_loss_state) = None"
    using fit_no_epoch [OF l, of 0] by simp
  have n: "map_of (disk example_state) (checkpoint_file (model_path example_state) 3) = None"
    by (simp add: example_state_def)
  have "load_pretrained example_collab 3 example_state =
          (Inl FileNotFoundError,
           emit (TorchLoad (checkpoint_file (model_path example_state) 3)) example_state)"
    by (rule load_pretrained_absent [OF _ n]) simp
  then have b: "fst (fit example_collab 0 3 example_state) = Some FileNotFoundError"
    by (simp add: fit_resume_fails)
  show ?thesis using m a b by simp
qed

text \<open>
  Claim C7 (the code departs from it). On a directory of three checkpoint files of which
  the second cannot be loaded, \<open>plot_loss_acc\<close> raises \<open>NameError\<close> for \<open>os\<close>
  before it lists the directory: nothing is logged, so no file is read, none is skipped and
  no merged series is built.
\<close>

theorem plot_loss_acc_reads_no_file:
  "map snd (disk three_files_state) ! 1 = NotLoadable \<and> length (disk three_files_state) = 3 \<and>
   fst (plot_loss_acc ''ckpt/'' three_files_state) = Some (NameError ''os'') \<and>
   new_events three_files_state (snd (plot_loss_acc ''ckpt/'' three_files_state)) = []"
  by (simp add: plot_loss_acc_def new_events_def three_files_state_def example_state_def)

text \<open>
  Claim C8, as the code has it. \<open>plot_loss_acc(model_path)\<close> sets the trainer's
  \<open>model_path\<close>, the directory from which \<open>fit\<close> loads and to which it saves, to its
  argument; it changes no other attribute of the trainer, not the collaborators and no
  file.
\<close>

theorem plot_loss_acc_sets_model_path:
  "model_path (snd (plot_loss_acc path s)) = path \<and>
   batch_size (snd (plot_loss_acc path s)) = batch_size s \<and>
   train_dataloader (snd (plot_loss_acc path s)) = train_dataloader s \<and>
   dev_dataloader (snd (plot_loss_acc path s)) = dev_dataloader s \<and>
   live (snd (plot_loss_acc path s)) = live s \<and>
   disk (snd (plot_loss_acc path s)) = disk s"
  by (simp add: plot_loss_acc_def)

text \<open>
  Against claim C8 as stated: plotting another directory changes the save path, and the
  next \<open>fit\<close> writes its checkpoint there instead of under the trainer's own directory.
\<close>

theorem plot_loss_acc_moves_save_path:
  "model_path (snd (plot_loss_acc ''other/'' example_state)) \<noteq> model_path example_state \<and>
   map fst (disk (snd (fit example_collab 0 0 example_state))) = [''ckpt/checkpoint_0.pth''] \<and>
   map fst (disk (snd (fit example_collab 0 0 (snd (plot_loss_acc ''other/'' example_state))))) =
     [''other/checkpoint_0.pth'']"
proof -
  have a: "fit example_collab 0 0 s =
     (None, torch_save \<lparr>model_state_dict = Some (c_model_state example_collab (live (emit (Print FromScratch) s))),
                        optimizer_state_dict = Some (c_optimizer_state example_collab (live (emit (Print FromScratch) s))),
                        epoch = Some [0 + 1..0 + 0],
                        train_loss = Some [], dev_loss = Some [], dev_acc = Some []\<rparr>
             (checkpoint_file (model_path (emit (Print FromScratch) s)) (0 + 0))
             (emit (Print FromScratch) s))" for s :: "(nat, nat, real) state"
    by (rule fit_no_epoch [OF load_pretrained_fresh]) simp
  show ?thesis
    by (simp add: a torch_save_def emit_def plot_loss_acc_def example_state_def checkpoint_file_0)
qed



text \<open>
  Claim C10. For every \<open>p > 0\<close> whose checkpoint can be resumed, \<open>fit(0, p)\<close> returns
  normally and writes a checkpoint under the identity \<open>p + 0 = p\<close>: the very path it has
  just loaded. The stored epoch list and the three metric lists are empty, whereas the file
  it replaces had a non-empty history (resuming reads the last entry of three of its
  lists), so the history recorded under that identity is lost.
\<close>

theorem fit_zero_epochs_overwrites:
  assumes "0 < p"
    and "map_of (disk s) (checkpoint_file (model_path s) p) = Some (Pickled old)"
    and "resume_error (Some (Pickled old)) = None"
  shows "\<exists>s' new. fit c 0 p s = (None, s') \<and>
           disk s' = AList.update (checkpoint_file (model_path s) p) (Pickled new) (disk s) \<and>
           map_of (disk s') (checkpoint_file (model_path s) p) = Some (Pickled new) \<and>
           epoch new = Some [] \<and> train_loss new = Some [] \<and> dev_loss new = Some [] \<and>
           dev_acc new = Some [] \<and>
           epoch old \<noteq> Some [] \<and> train_loss old \<noteq> Some [] \<and> dev_acc old \<noteq> Some []"
proof -
  have st: "can_start s p" using assms by (simp add: can_start_def)
  from load_pretrained_ok [OF st, of c] obtain start s0 where
    l: "load_pretrained c p s = (Inr start, s0)" and d: "disk s0 = disk s" and
    m: "model_path s0 = model_path s"
    by blast
  have r: "fit c 0 p s =
           (None, torch_save \<lparr>model_state_dict = Some (c_model_state c (live s0)),
                              optimizer_state_dict = Some (c_optimizer_state c (live s0)),
                              epoch = Some [p + 1..p + 0],
                              train_loss = Some [], dev_loss = Some [], dev_acc = Some []\<rparr>
                   (checkpoint_file (model_path s0) (p + 0)) s0)"
    by (rule fit_no_epoch [OF l]) simp
  have old: "epoch old \<noteq> Some [] \<and> train_loss old \<noteq> Some [] \<and> dev_acc old \<noteq> Some []"
    using assms(3) by (auto split: if_splits)
  show ?thesis using r d m old by (simp add: torch_save_def update_conv')
qed

theorem fit_zero_epochs_overwrites_witness:
  "(0::int) < 3 \<and>
   map_of (disk resumed_state) (checkpoint_file (model_path resumed_state) 3) =
     Some (Pickled example_checkpoint) \<and>
   resume_error (Some (Pickled example_checkpoint)) = None \<and>
   (\<exists>s' new. fit example_collab 0 3 resumed_state = (None, s') \<and>
      disk s' = AList.update (checkpoint_file (model_path resumed_state) 3) (Pickled new)
                  (disk resumed_state) \<and>
      map_of (disk s') (checkpoint_file (model_path resumed_state) 3) = Some (Pickled new) \<and>
      epoch new = Some [] \<and> train_loss new = Some [] \<and> dev_loss new = Some [] \<and>
      dev_acc new = Some [] \<and>
      epoch example_checkpoint \<noteq> Some [] \<and> train_loss example_checkpoint \<noteq> Some [] \<and>
      dev_acc example_checkpoint \<noteq> Some [])"
proof -
  have h1: "(0::int) < 3" by simp
  have h2: "map_of (disk resumed_state) (checkpoint_file (model_path resumed_state) 3) =
     Some (Pickled example_checkpoint)"
    by (simp add: resumed_state_def example_state_def checkpoint_file_3)
  have h3: "resume_error (Some (Pickled example_checkpoint)) = None"
    by (simp add: example_checkpoint_def)
  show ?thesis
    using h1 h2 h3 fit_zero_epochs_overwrites [OF h1 h2 h3, of example_collab] by simp
qed

end
